theory Spec2Isabelle
  imports Main
begin

section \<open>Streaming JSON extraction and projection\<close>

text \<open>
  The development follows the three files of \<^verbatim>\<open>src/stream\<close>: \<^verbatim>\<open>JsonParser.ts\<close> (a Node
  Transform around the stream-json pipeline), \<^verbatim>\<open>JsonFieldFilter.ts\<close> (the projector) and
  \<^verbatim>\<open>AxiosResponseStreamFilter.ts\<close> (the orchestrator). Strings are sequences of code
  units below 256.
\<close>

subsection \<open>Errors\<close>

text \<open>
  \<open>ConfigurationError\<close> is the \<^verbatim>\<open>Error\<close> thrown by the constructor of the parser,
  \<open>ParseError\<close> an error raised by the stream-json stages, \<open>TypeError\<close> the JavaScript
  exception of that name, \<open>PushAfterEOF\<close> the error a Node readable raises when data is
  pushed after the end-of-stream marker. \<open>Unmodelled\<close> marks a step whose behaviour lies
  outside this embedding (members inherited from a built-in prototype, floating-point
  rounding of a fractional index, named properties of arrays); no statement is made about
  such runs. \<open>OutOfFuel\<close> is returned when the recursion-depth bound given to a function
  that walks the heap is used up.
\<close>

datatype error =
    ConfigurationError
  | ParseError
  | TypeError
  | PushAfterEOF
  | Unmodelled
  | OutOfFuel

subsection \<open>String operations of JavaScript used by the code\<close>

definition startsWith :: "string \<Rightarrow> string \<Rightarrow> bool" where
  "startsWith s p = (take (length p) s = p)"

text \<open>\<^verbatim>\<open>s.includes(p)\<close>\<close>

fun includesStr :: "string \<Rightarrow> string \<Rightarrow> bool" where
  "includesStr [] p = (p = [])"
| "includesStr (c # cs) p = (startsWith (c # cs) p \<or> includesStr cs p)"

text \<open>\<^verbatim>\<open>s.replace(p, r)\<close> with a string pattern: the first occurrence only.\<close>

fun replaceFirst :: "string \<Rightarrow> string \<Rightarrow> string \<Rightarrow> string" where
  "replaceFirst [] p r = (if p = [] then r else [])"
| "replaceFirst (c # cs) p r =
     (if startsWith (c # cs) p then r @ drop (length p) (c # cs)
      else c # replaceFirst cs p r)"

text \<open>\<^verbatim>\<open>s.indexOf(c)\<close> for a single code unit; \<open>-1\<close> when absent.\<close>

fun indexOf :: "string \<Rightarrow> char \<Rightarrow> int" where
  "indexOf [] c = -1"
| "indexOf (d # ds) c =
     (if d = c then 0 else (let i = indexOf ds c in if i < 0 then -1 else i + 1))"

text \<open>
  \<^verbatim>\<open>s.substring(start, end)\<close>: both arguments are clamped to the string and swapped when
  the first is the larger.
\<close>

definition substring :: "string \<Rightarrow> int \<Rightarrow> int \<Rightarrow> string" where
  "substring s start stop =
     (let n = int (length s);
          a = min (max start 0) n;
          b = min (max stop 0) n;
          lo = min a b;
          hi = max a b
      in take (nat (hi - lo)) (drop (nat lo) s))"

text \<open>\<^verbatim>\<open>s.split('.')\<close>: always at least one segment.\<close>

fun split_dot :: "string \<Rightarrow> string list" where
  "split_dot [] = [[]]"
| "split_dot (c # cs) =
     (if c = CHR ''.'' then [] # split_dot cs
      else (case split_dot cs of
              [] \<Rightarrow> [[c]]
            | seg # segs \<Rightarrow> (c # seg) # segs))"

subsection \<open>Conversion of a string to a number\<close>

text \<open>
  \<^verbatim>\<open>Number(s)\<close> follows the StringNumericLiteral grammar: white space is trimmed, the
  empty string is 0, then come the hexadecimal, octal and binary literals (unsigned), and the
  signed decimal literals with optional fraction and exponent, and \<^verbatim>\<open>Infinity\<close>. Everything
  else is \<^verbatim>\<open>NaN\<close>. The value is kept exactly when it is an integer; a finite value that
  is not an integer is \<open>Fraction\<close> (JavaScript rounds it to a double, which this embedding
  does not compute).
\<close>

datatype jsnumber = NaN | Integer int | Fraction | PosInfinity | NegInfinity

definition isWhiteSpace :: "char \<Rightarrow> bool" where
  "isWhiteSpace c = (c \<in> set [CHR 0x09, CHR 0x0A, CHR 0x0B, CHR 0x0C, CHR 0x0D, CHR 0x20, CHR 0xA0])"

definition trim :: "string \<Rightarrow> string" where
  "trim s = rev (dropWhile isWhiteSpace (rev (dropWhile isWhiteSpace s)))"

definition digitValue :: "char \<Rightarrow> nat option" where
  "digitValue c =
     (let n = (of_char c :: nat) in
      if 48 \<le> n \<and> n \<le> 57 then Some (n - 48)
      else if 97 \<le> n \<and> n \<le> 102 then Some (n - 87)
      else if 65 \<le> n \<and> n \<le> 70 then Some (n - 55)
      else None)"

definition isDigitOf :: "nat \<Rightarrow> char \<Rightarrow> bool" where
  "isDigitOf base c = (case digitValue c of None \<Rightarrow> False | Some d \<Rightarrow> d < base)"

definition digitsValue :: "nat \<Rightarrow> string \<Rightarrow> nat" where
  "digitsValue base ds = foldl (\<lambda>acc c. base * acc + (case digitValue c of None \<Rightarrow> 0 | Some d \<Rightarrow> d)) 0 ds"

definition isExponentIndicator :: "char \<Rightarrow> bool" where
  "isExponentIndicator c = (c = CHR ''e'' \<or> c = CHR ''E'')"

text \<open>An unsigned decimal literal, as mantissa \<open>m\<close> and exponent \<open>e\<close> of the value \<open>m * 10 ^ e\<close>.\<close>

definition decimalLiteral :: "string \<Rightarrow> (nat \<times> int) option" where
  "decimalLiteral s =
     (let mant = takeWhile (\<lambda>c. \<not> isExponentIndicator c) s;
          rest = dropWhile (\<lambda>c. \<not> isExponentIndicator c) s;
          ip = takeWhile (\<lambda>c. c \<noteq> CHR ''.'') mant;
          fp = (case dropWhile (\<lambda>c. c \<noteq> CHR ''.'') mant of [] \<Rightarrow> [] | dot # ds \<Rightarrow> ds)
      in if \<not> (list_all (isDigitOf 10) ip \<and> list_all (isDigitOf 10) fp \<and> (ip \<noteq> [] \<or> fp \<noteq> []))
         then None
         else (case rest of
                 [] \<Rightarrow> Some (digitsValue 10 (ip @ fp), - int (length fp))
               | ind # ex \<Rightarrow>
                   (let neg = startsWith ex ''-'';
                        ds = (if startsWith ex ''-'' \<or> startsWith ex ''+'' then drop 1 ex else ex)
                    in if ds \<noteq> [] \<and> list_all (isDigitOf 10) ds
                       then Some (digitsValue 10 (ip @ fp),
                                  (if neg then - int (digitsValue 10 ds) else int (digitsValue 10 ds))
                                    - int (length fp))
                       else None)))"

definition fromDecimal :: "bool \<Rightarrow> nat \<Rightarrow> int \<Rightarrow> jsnumber" where
  "fromDecimal neg m e =
     (let sgn = (if neg then - 1 else 1 :: int) in
      if 0 \<le> e then Integer (sgn * int m * 10 ^ nat e)
      else if 10 ^ nat (- e) dvd m then Integer (sgn * int (m div 10 ^ nat (- e)))
      else Fraction)"

definition nonDecimalLiteral :: "nat \<Rightarrow> string \<Rightarrow> jsnumber" where
  "nonDecimalLiteral base ds =
     (if ds \<noteq> [] \<and> list_all (isDigitOf base) ds then Integer (int (digitsValue base ds)) else NaN)"

definition toNumber :: "string \<Rightarrow> jsnumber" where
  "toNumber str =
     (let s = trim str in
      if s = [] then Integer 0
      else if startsWith s ''0x'' \<or> startsWith s ''0X'' then nonDecimalLiteral 16 (drop 2 s)
      else if startsWith s ''0o'' \<or> startsWith s ''0O'' then nonDecimalLiteral 8 (drop 2 s)
      else if startsWith s ''0b'' \<or> startsWith s ''0B'' then nonDecimalLiteral 2 (drop 2 s)
      else (let neg = startsWith s ''-'';
                u = (if startsWith s ''-'' \<or> startsWith s ''+'' then drop 1 s else s)
            in if u = ''Infinity'' then (if neg then NegInfinity else PosInfinity)
               else (case decimalLiteral u of
                       None \<Rightarrow> NaN
                     | Some (m, e) \<Rightarrow> fromDecimal neg m e)))"

definition isNaN :: "jsnumber \<Rightarrow> bool" where
  "isNaN x = (x = NaN)"

text \<open>The decimal string of an array index (\<^verbatim>\<open>ToString\<close> of a non-negative integer).\<close>

fun showNat :: "nat \<Rightarrow> string" where
  "showNat n =
     (if n < 10 then [char_of (48 + n)]
      else showNat (n div 10) @ [char_of (48 + n mod 10)])"

declare showNat.simps [simp del]

subsection \<open>JsonFieldFilter: parsing a field path\<close>

definition parseSegment :: "string \<Rightarrow> string list" where
  "parseSegment segment =
     (if includesStr segment ''[*]'' then
        (let base = replaceFirst segment ''[*]'' '''' in
         (if base \<noteq> '''' then [base] else []) @ [''*''])
      else if includesStr segment ''['' \<and> includesStr segment '']'' then
        (let bracketIndex = indexOf segment (CHR ''['');
             base = substring segment 0 bracketIndex;
             indexPart = substring segment (bracketIndex + 1) (indexOf segment (CHR '']''))
         in (if base \<noteq> '''' then [base] else []) @ [indexPart])
      else [segment])"

definition parsePath :: "string \<Rightarrow> string list" where
  "parsePath path = concat (map parseSegment (split_dot path))"

subsection \<open>Values and the heap\<close>

text \<open>
  JavaScript objects and arrays are mutable and shared by reference, and the projector
  stores references to parts of the source in the target. The heap is a list of cells, an
  address is an index into it, and a value is a primitive or a reference. An object is its
  list of own properties in insertion order. An array is its list of slots; a slot holding
  \<open>Undefined\<close> is a hole (the code never stores \<^verbatim>\<open>undefined\<close> in an array whose elements
  come from JSON).
\<close>

type_synonym addr = nat

datatype jsval = Undefined | Null | Bool bool | Num int | Str string | Ref addr

datatype jsobj = Object "(string \<times> jsval) list" | Array "jsval list"

type_synonym heap = "jsobj list"

definition cell :: "heap \<Rightarrow> addr \<Rightarrow> jsobj option" where
  "cell h a = (if a < length h then Some (h ! a) else None)"

fun truthy :: "jsval \<Rightarrow> bool" where
  "truthy Undefined = False"
| "truthy Null = False"
| "truthy (Bool b) = b"
| "truthy (Num n) = (n \<noteq> 0)"
| "truthy (Str s) = (s \<noteq> [])"
| "truthy (Ref a) = True"

definition isArray :: "heap \<Rightarrow> jsval \<Rightarrow> bool" where
  "isArray h v =
     (case v of
        Ref a \<Rightarrow> (case cell h a of Some (Array es) \<Rightarrow> True | _ \<Rightarrow> False)
      | _ \<Rightarrow> False)"

fun setProp :: "(string \<times> 'a) list \<Rightarrow> string \<Rightarrow> 'a \<Rightarrow> (string \<times> 'a) list" where
  "setProp [] k v = [(k, v)]"
| "setProp ((k', v') # ps) k v =
     (if k' = k then (k, v) # ps else (k', v') # setProp ps k v)"

definition deleteProp :: "(string \<times> 'a) list \<Rightarrow> string \<Rightarrow> (string \<times> 'a) list" where
  "deleteProp ps k = filter (\<lambda>kv. fst kv \<noteq> k) ps"

text \<open>Assignment to an array slot; the array grows by holes when the index is past its end.\<close>

definition setSlot :: "jsval list \<Rightarrow> nat \<Rightarrow> jsval \<Rightarrow> jsval list" where
  "setSlot es i v =
     (if i < length es then es[i := v]
      else es @ replicate (i - length es) Undefined @ [v])"

text \<open>
  The names every object inherits from \<^verbatim>\<open>Object.prototype\<close>. Reading such a name on an
  object that has no own property of that name yields a built-in, which is not modelled.
\<close>

definition objectPrototypeNames :: "string list" where
  "objectPrototypeNames =
     [''constructor'', ''__defineGetter__'', ''__defineSetter__'', ''hasOwnProperty'',
      ''__lookupGetter__'', ''__lookupSetter__'', ''isPrototypeOf'', ''propertyIsEnumerable'',
      ''toString'', ''valueOf'', ''__proto__'', ''toLocaleString'']"

text \<open>
  A property key that is the canonical decimal string of an integer below \<open>2^32 - 1\<close> is an
  array index; \<^verbatim>\<open>Object.keys\<close> lists such keys first, in ascending order, and the other
  keys after them in insertion order. For an array the keys are the slots that are not
  holes.
\<close>

definition arrayIndexOf :: "string \<Rightarrow> nat option" where
  "arrayIndexOf k =
     (if k \<noteq> [] \<and> list_all (isDigitOf 10) k \<and> showNat (digitsValue 10 k) = k
         \<and> digitsValue 10 k < 4294967295
      then Some (digitsValue 10 k) else None)"

datatype pkey = Name string | Slot nat

definition ownKeys :: "jsobj \<Rightarrow> pkey list" where
  "ownKeys obj =
     (case obj of
        Object ps \<Rightarrow>
          map (\<lambda>n. Name (showNat n)) (sort (List.map_filter (\<lambda>kv. arrayIndexOf (fst kv)) ps))
          @ map Name (filter (\<lambda>k. arrayIndexOf k = None) (map fst ps))
      | Array es \<Rightarrow> map Slot (filter (\<lambda>i. es ! i \<noteq> Undefined) [0..<length es]))"

definition getProp :: "jsobj \<Rightarrow> pkey \<Rightarrow> jsval" where
  "getProp obj key =
     (case (obj, key) of
        (Object ps, Name k) \<Rightarrow> (case map_of ps k of Some v \<Rightarrow> v | None \<Rightarrow> Undefined)
      | (Array es, Slot i) \<Rightarrow> (if i < length es then es ! i else Undefined)
      | _ \<Rightarrow> Undefined)"

definition deleteKey :: "jsobj \<Rightarrow> pkey \<Rightarrow> jsobj" where
  "deleteKey obj key =
     (case (obj, key) of
        (Object ps, Name k) \<Rightarrow> Object (deleteProp ps k)
      | (Array es, Slot i) \<Rightarrow> Array (if i < length es then es[i := Undefined] else es)
      | _ \<Rightarrow> obj)"

text \<open>\<^verbatim>\<open>delete obj[key]\<close> on the cell at address \<open>a\<close>.\<close>

definition deleteAt :: "heap \<Rightarrow> addr \<Rightarrow> pkey \<Rightarrow> heap" where
  "deleteAt h a key = (if a < length h then h[a := deleteKey (h ! a) key] else h)"

subsection \<open>Property access of the projector\<close>

text \<open>
  \<^verbatim>\<open>source.hasOwnProperty(part)\<close>. The method is looked up on the source itself: a source
  object with an own property of that name shadows the inherited method with a value that
  is not callable, and the call throws.

  The method is inherited from \<^verbatim>\<open>Object.prototype\<close>, so the call depends on the prototype of
  the source. An object holding the key \<^verbatim>\<open>__proto__\<close> may have another prototype: where the
  object was built by assignment of its keys, as the values emitted by the streaming parser
  are, that key has replaced the prototype (by \<^verbatim>\<open>null\<close>, and the call throws for want of
  the method; by an object, whose properties are then inherited), while \<^verbatim>\<open>JSON.parse\<close> makes
  it an own property. The heap records own properties only, so the call is not modelled for
  an object holding that key.
\<close>

definition hasOwnProperty :: "heap \<Rightarrow> addr \<Rightarrow> string \<Rightarrow> error + bool" where
  "hasOwnProperty h a part =
     (case cell h a of
        None \<Rightarrow> Inl Unmodelled
      | Some (Object ps) \<Rightarrow>
          if map_of ps ''__proto__'' \<noteq> None then Inl Unmodelled
          else if map_of ps ''hasOwnProperty'' \<noteq> None then Inl TypeError
          else Inr (map_of ps part \<noteq> None)
      | Some (Array es) \<Rightarrow>
          Inr (part = ''length'' \<or>
               (case arrayIndexOf part of
                  Some i \<Rightarrow> i < length es \<and> es ! i \<noteq> Undefined
                | None \<Rightarrow> False)))"

text \<open>\<^verbatim>\<open>source[part]\<close> for an own property.\<close>

definition getSource :: "heap \<Rightarrow> addr \<Rightarrow> string \<Rightarrow> jsval" where
  "getSource h a part =
     (case cell h a of
        None \<Rightarrow> Undefined
      | Some (Object ps) \<Rightarrow> (case map_of ps part of Some v \<Rightarrow> v | None \<Rightarrow> Undefined)
      | Some (Array es) \<Rightarrow>
          if part = ''length'' then Num (int (length es))
          else (case arrayIndexOf part of
                  Some i \<Rightarrow> (if i < length es then es ! i else Undefined)
                | None \<Rightarrow> Undefined))"

text \<open>
  \<^verbatim>\<open>target[part]\<close> read and written with a property name. The compiled module is strict
  code, so an assignment to a property of a primitive throws.
\<close>

definition readNamed :: "heap \<Rightarrow> jsval \<Rightarrow> string \<Rightarrow> error + jsval" where
  "readNamed h target part =
     (case target of
        Ref a \<Rightarrow>
          (case cell h a of
             Some (Object ps) \<Rightarrow>
               (case map_of ps part of
                  Some v \<Rightarrow> Inr v
                | None \<Rightarrow> if part \<in> set objectPrototypeNames then Inl Unmodelled else Inr Undefined)
           | _ \<Rightarrow> Inl Unmodelled)
      | Undefined \<Rightarrow> Inl TypeError
      | Null \<Rightarrow> Inl TypeError
      | _ \<Rightarrow> Inl Unmodelled)"

definition writeNamed :: "heap \<Rightarrow> jsval \<Rightarrow> string \<Rightarrow> jsval \<Rightarrow> error + heap" where
  "writeNamed h target part v =
     (case target of
        Ref a \<Rightarrow>
          (case cell h a of
             Some (Object ps) \<Rightarrow>
               if part = ''__proto__'' \<and> map_of ps part = None then Inl Unmodelled
               else Inr (h[a := Object (setProp ps part v)])
           | _ \<Rightarrow> Inl Unmodelled)
      | _ \<Rightarrow> Inl TypeError)"

text \<open>\<^verbatim>\<open>target[arrayIndex]\<close> read and written with a number that is an array index.\<close>

definition readIndexed :: "heap \<Rightarrow> jsval \<Rightarrow> nat \<Rightarrow> error + jsval" where
  "readIndexed h target i =
     (case target of
        Ref a \<Rightarrow>
          (case cell h a of
             Some (Object ps) \<Rightarrow>
               Inr (case map_of ps (showNat i) of Some v \<Rightarrow> v | None \<Rightarrow> Undefined)
           | Some (Array es) \<Rightarrow> Inr (if i < length es then es ! i else Undefined)
           | None \<Rightarrow> Inl Unmodelled)
      | Undefined \<Rightarrow> Inl TypeError
      | Null \<Rightarrow> Inl TypeError
      | _ \<Rightarrow> Inl Unmodelled)"

definition writeIndexed :: "heap \<Rightarrow> jsval \<Rightarrow> nat \<Rightarrow> jsval \<Rightarrow> error + heap" where
  "writeIndexed h target i v =
     (case target of
        Ref a \<Rightarrow>
          (case cell h a of
             Some (Object ps) \<Rightarrow> Inr (h[a := Object (setProp ps (showNat i) v)])
           | Some (Array es) \<Rightarrow> Inr (h[a := Array (setSlot es i v)])
           | None \<Rightarrow> Inl Unmodelled)
      | _ \<Rightarrow> Inl TypeError)"

subsection \<open>JsonFieldFilter: buildStructureFromPath\<close>

text \<open>
  The function follows the source branch by branch. The two \<^verbatim>\<open>forEach\<close> loops of the
  wildcard branch are the functions \<open>forEachFresh\<close> (the target is not an array) and
  \<open>forEachMerge\<close> (the target is an array): \<open>i\<close> is the position, \<open>k\<close> the number of
  positions left of the length read when the loop started; the element is read from the
  heap at each step and a hole is skipped, as \<^verbatim>\<open>forEach\<close> does.

  In the branch where the target is not an array, the loop fills a local array and the code
  then calls \<^verbatim>\<open>target.push\<close>. The target is not an array, all its own properties have just
  been deleted, and no value of the heap is a function: the call throws a \<^verbatim>\<open>TypeError\<close>.
\<close>

function buildStructureFromPath :: "heap \<Rightarrow> jsval \<Rightarrow> string list \<Rightarrow> nat \<Rightarrow> jsval \<Rightarrow> error + heap"
  and forEachFresh :: "heap \<Rightarrow> addr \<Rightarrow> string list \<Rightarrow> nat \<Rightarrow> addr \<Rightarrow> nat \<Rightarrow> nat \<Rightarrow> error + heap"
  and forEachMerge :: "heap \<Rightarrow> addr \<Rightarrow> string list \<Rightarrow> nat \<Rightarrow> jsval \<Rightarrow> nat \<Rightarrow> nat \<Rightarrow> error + heap"
where
  "buildStructureFromPath h source pathParts index target =
     (if length pathParts \<le> index then Inr h
      else
        let part = pathParts ! index;
            isLast = (index = length pathParts - 1)
        in
        if part = ''*'' then
          (case source of
             Ref sa \<Rightarrow>
               (case cell h sa of
                  Some (Array es) \<Rightarrow>
                    if \<not> isArray h target then
                      (case forEachFresh (h @ [Array []]) sa pathParts (index + 1) (length h) 0 (length es) of
                         Inl e \<Rightarrow> Inl e
                       | Inr h' \<Rightarrow> Inl TypeError)
                    else forEachMerge h sa pathParts (index + 1) target 0 (length es)
                | _ \<Rightarrow> Inr h)
           | _ \<Rightarrow> Inr h)
        else if \<not> isNaN (toNumber part) then
          (case source of
             Ref sa \<Rightarrow>
               (case cell h sa of
                  Some (Array es) \<Rightarrow>
                    (case toNumber part of
                       Integer n \<Rightarrow>
                         if 0 \<le> n \<and> n < int (length es) then
                           (let arrayIndex = nat n;
                                sourceItem = es ! arrayIndex
                            in
                            if isLast then
                              (if sourceItem = Undefined then Inl Unmodelled
                               else writeIndexed h target arrayIndex sourceItem)
                            else
                              (case readIndexed h target arrayIndex of
                                 Inl e \<Rightarrow> Inl e
                               | Inr tv \<Rightarrow>
                                   if \<not> truthy tv then
                                     (case writeIndexed (h @ [Object []]) target arrayIndex (Ref (length h)) of
                                        Inl e \<Rightarrow> Inl e
                                      | Inr h' \<Rightarrow>
                                          buildStructureFromPath h' sourceItem pathParts (index + 1) (Ref (length h)))
                                   else buildStructureFromPath h sourceItem pathParts (index + 1) tv))
                         else Inr h
                     | Fraction \<Rightarrow> Inl Unmodelled
                     | _ \<Rightarrow> Inr h)
                | _ \<Rightarrow> Inr h)
           | _ \<Rightarrow> Inr h)
        else
          (case source of
             Ref sa \<Rightarrow>
               (case hasOwnProperty h sa part of
                  Inl e \<Rightarrow> Inl e
                | Inr False \<Rightarrow> Inr h
                | Inr True \<Rightarrow>
                    (let sourceValue = getSource h sa part in
                     if isLast then writeNamed h target part sourceValue
                     else
                       (case readNamed h target part of
                          Inl e \<Rightarrow> Inl e
                        | Inr tv \<Rightarrow>
                            if \<not> truthy tv then
                              (let nextPart = pathParts ! (index + 1);
                                   fresh = (if nextPart = ''*'' \<or> \<not> isNaN (toNumber nextPart)
                                            then Array [] else Object [])
                               in
                               case writeNamed (h @ [fresh]) target part (Ref (length h)) of
                                 Inl e \<Rightarrow> Inl e
                               | Inr h' \<Rightarrow>
                                   buildStructureFromPath h' sourceValue pathParts (index + 1) (Ref (length h)))
                            else buildStructureFromPath h sourceValue pathParts (index + 1) tv)))
           | _ \<Rightarrow> Inr h))"
| "forEachFresh h sa pathParts next ta i 0 = Inr h"
| "forEachFresh h sa pathParts next ta i (Suc k) =
     (case cell h sa of
        Some (Array es) \<Rightarrow>
          if i < length es \<and> es ! i \<noteq> Undefined then
            (case writeIndexed (h @ [Object []]) (Ref ta) i (Ref (length h)) of
               Inl e \<Rightarrow> Inl e
             | Inr h1 \<Rightarrow>
                 (case buildStructureFromPath h1 (es ! i) pathParts next (Ref (length h)) of
                    Inl e \<Rightarrow> Inl e
                  | Inr h2 \<Rightarrow> forEachFresh h2 sa pathParts next ta (Suc i) k))
          else forEachFresh h sa pathParts next ta (Suc i) k
      | _ \<Rightarrow> Inl Unmodelled)"
| "forEachMerge h sa pathParts next target i 0 = Inr h"
| "forEachMerge h sa pathParts next target i (Suc k) =
     (case cell h sa of
        Some (Array es) \<Rightarrow>
          if i < length es \<and> es ! i \<noteq> Undefined then
            (case readIndexed h target i of
               Inl e \<Rightarrow> Inl e
             | Inr tv \<Rightarrow>
                 if tv = Undefined then
                   (case writeIndexed (h @ [Object []]) target i (Ref (length h)) of
                      Inl e \<Rightarrow> Inl e
                    | Inr h1 \<Rightarrow>
                        (case buildStructureFromPath h1 (es ! i) pathParts next (Ref (length h)) of
                           Inl e \<Rightarrow> Inl e
                         | Inr h2 \<Rightarrow> forEachMerge h2 sa pathParts next target (Suc i) k))
                 else
                   (case buildStructureFromPath h (es ! i) pathParts next tv of
                      Inl e \<Rightarrow> Inl e
                    | Inr h2 \<Rightarrow> forEachMerge h2 sa pathParts next target (Suc i) k))
          else forEachMerge h sa pathParts next target (Suc i) k
      | _ \<Rightarrow> Inl Unmodelled)"
  by pat_completeness auto

termination
  by (relation "inv_image (less_than <*lex*> less_than)
        (\<lambda>x. case x of
            Inl (h, source, pathParts, index, target) \<Rightarrow>
              (2 * (Suc (length pathParts) - index), 0)
          | Inr (Inl (h, sa, pathParts, next, ta, i, k)) \<Rightarrow>
              (2 * (Suc (length pathParts) - next) + 1, k)
          | Inr (Inr (h, sa, pathParts, next, target, i, k)) \<Rightarrow>
              (2 * (Suc (length pathParts) - next) + 1, k))")
     auto

declare buildStructureFromPath.simps [simp del]

definition extractField :: "heap \<Rightarrow> jsval \<Rightarrow> string \<Rightarrow> jsval \<Rightarrow> error + heap" where
  "extractField h source fieldPath target =
     (let pathParts = parsePath fieldPath in
      buildStructureFromPath h source pathParts 0 target)"

text \<open>\<^verbatim>\<open>this.fieldsToKeep.forEach(fieldPath => this.extractField(obj, fieldPath, filtered))\<close>\<close>

fun extractFields :: "heap \<Rightarrow> jsval \<Rightarrow> string list \<Rightarrow> jsval \<Rightarrow> error + heap" where
  "extractFields h obj [] filtered = Inr h"
| "extractFields h obj (fieldPath # rest) filtered =
     (case extractField h obj fieldPath filtered of
        Inl e \<Rightarrow> Inl e
      | Inr h' \<Rightarrow> extractFields h' obj rest filtered)"

subsection \<open>JsonFieldFilter: cleanupEmptyStructures\<close>

text \<open>
  The recursion follows references through the heap, so it is bounded by \<open>fuel\<close>, the
  number of nested calls allowed. \<open>cleanupKeys\<close> is the loop over \<^verbatim>\<open>Object.keys(obj)\<close>,
  given the keys from the last to the first; \<open>cleanupItems\<close> is
  \<^verbatim>\<open>value.forEach(item => ...)\<close>, whose callback acts on an item that is an object or an
  array and does nothing on a primitive (a hole is skipped by the loop); \<open>everyEmpty\<close> is the test of \<^verbatim>\<open>value.every(...)\<close>, which
  skips holes.
\<close>

definition isEmptyItem :: "heap \<Rightarrow> jsval \<Rightarrow> bool" where
  "isEmptyItem h item =
     (case item of
        Undefined \<Rightarrow> True
      | Null \<Rightarrow> True
      | Ref c \<Rightarrow> (case cell h c of Some obj \<Rightarrow> length (ownKeys obj) = 0 | None \<Rightarrow> False)
      | _ \<Rightarrow> False)"

definition everyEmpty :: "heap \<Rightarrow> addr \<Rightarrow> bool" where
  "everyEmpty h b =
     (case cell h b of
        Some (Array es) \<Rightarrow> list_all (isEmptyItem h) es
      | _ \<Rightarrow> False)"

function cleanupEmptyStructures :: "nat \<Rightarrow> heap \<Rightarrow> jsval \<Rightarrow> error + heap"
  and cleanupKeys :: "nat \<Rightarrow> heap \<Rightarrow> addr \<Rightarrow> pkey list \<Rightarrow> error + heap"
  and cleanupItems :: "nat \<Rightarrow> heap \<Rightarrow> addr \<Rightarrow> nat \<Rightarrow> nat \<Rightarrow> error + heap"
where
  "cleanupEmptyStructures fuel h obj =
     (case obj of
        Ref a \<Rightarrow>
          (case fuel of
             0 \<Rightarrow> Inl OutOfFuel
           | Suc f \<Rightarrow>
               (case cell h a of
                  None \<Rightarrow> Inl Unmodelled
                | Some cur \<Rightarrow> cleanupKeys f h a (rev (ownKeys cur))))
      | _ \<Rightarrow> Inr h)"
| "cleanupKeys f h a [] = Inr h"
| "cleanupKeys f h a (key # keys) =
     (case cell h a of
        None \<Rightarrow> Inl Unmodelled
      | Some cur \<Rightarrow>
          (case getProp cur key of
             Ref b \<Rightarrow>
               (case cell h b of
                  None \<Rightarrow> Inl Unmodelled
                | Some (Array es) \<Rightarrow>
                    if length es = 0 then cleanupKeys f (deleteAt h a key) a keys
                    else
                      (case cleanupItems f h b 0 (length es) of
                         Inl e \<Rightarrow> Inl e
                       | Inr h1 \<Rightarrow>
                           cleanupKeys f (if everyEmpty h1 b then deleteAt h1 a key else h1) a keys)
                | Some (Object ps) \<Rightarrow>
                    (case cleanupEmptyStructures f h (Ref b) of
                       Inl e \<Rightarrow> Inl e
                     | Inr h1 \<Rightarrow>
                         cleanupKeys f
                           (if (case cell h1 b of Some v \<Rightarrow> length (ownKeys v) = 0 | None \<Rightarrow> False)
                            then deleteAt h1 a key else h1) a keys))
           | _ \<Rightarrow> cleanupKeys f h a keys))"
| "cleanupItems f h b i 0 = Inr h"
| "cleanupItems f h b i (Suc k) =
     (case cell h b of
        Some (Array es) \<Rightarrow>
          if i < length es then
            (case es ! i of
               Ref c \<Rightarrow>
                 (case cleanupEmptyStructures f h (Ref c) of
                    Inl e \<Rightarrow> Inl e
                  | Inr h1 \<Rightarrow> cleanupItems f h1 b (Suc i) k)
             | _ \<Rightarrow> cleanupItems f h b (Suc i) k)
          else cleanupItems f h b (Suc i) k
      | _ \<Rightarrow> Inl Unmodelled)"
  by pat_completeness auto

termination
  by (relation "inv_image (less_than <*lex*> less_than)
        (\<lambda>x. case x of
            Inl (fuel, h, obj) \<Rightarrow> (3 * fuel, 0)
          | Inr (Inl (f, h, a, keys)) \<Rightarrow> (3 * f + 2, length keys)
          | Inr (Inr (f, h, b, i, k)) \<Rightarrow> (3 * f + 1, k))")
     auto

declare cleanupEmptyStructures.simps [simp del]

subsection \<open>JsonFieldFilter: the transform step\<close>

text \<open>
  The projection hook \<^verbatim>\<open>customFilterCase(source, target)\<close> is any function on the heap. The
  result of the step is the value handed to \<^verbatim>\<open>this.push\<close> and the heap after the step.
\<close>

type_synonym hook = "heap \<Rightarrow> jsval \<Rightarrow> jsval \<Rightarrow> error + heap"

definition JsonFieldFilter_transform ::
  "nat \<Rightarrow> string list \<Rightarrow> hook option \<Rightarrow> heap \<Rightarrow> jsval \<Rightarrow> error + (jsval \<times> heap)" where
  "JsonFieldFilter_transform fuel fieldsToKeep customFilterCase h obj =
     (case obj of
        Ref a \<Rightarrow>
          (let filtered = Ref (length h);
               h0 = h @ [Object []]
           in
           case extractFields h0 obj fieldsToKeep filtered of
             Inl e \<Rightarrow> Inl e
           | Inr h1 \<Rightarrow>
               (case (case customFilterCase of None \<Rightarrow> Inr h1 | Some f \<Rightarrow> f h1 obj filtered) of
                  Inl e \<Rightarrow> Inl e
                | Inr h2 \<Rightarrow>
                    (case cleanupEmptyStructures fuel h2 filtered of
                       Inl e \<Rightarrow> Inl e
                     | Inr h3 \<Rightarrow> Inr (filtered, h3))))
      | _ \<Rightarrow> Inr (obj, h))"

subsection \<open>JSON values as trees\<close>

text \<open>
  A JSON document, and the structure a heap value denotes. \<open>JUndefined\<close> does not occur in
  a document; it stands for \<^verbatim>\<open>undefined\<close> and for the holes of an array. \<open>alloc\<close> builds a
  tree in the heap the way \<^verbatim>\<open>JSON.parse\<close> does (a repeated key keeps its first position
  and its last value, and every key is an own property, the key \<^verbatim>\<open>__proto__\<close> too; on an
  object holding that key \<open>hasOwnProperty\<close> gives no result, see there); \<open>reify\<close> reads the
  tree of a value back, to the given depth.
\<close>

datatype json =
    JUndefined
  | JNull
  | JBool bool
  | JNum int
  | JStr string
  | JArr "json list"
  | JObj "(string \<times> json) list"

fun alloc :: "json \<Rightarrow> heap \<Rightarrow> jsval \<times> heap"
  and allocItems :: "json list \<Rightarrow> heap \<Rightarrow> jsval list \<times> heap"
  and allocProps :: "(string \<times> json) list \<Rightarrow> heap \<Rightarrow> (string \<times> jsval) list \<times> heap"
where
  "alloc JUndefined h = (Undefined, h)"
| "alloc JNull h = (Null, h)"
| "alloc (JBool b) h = (Bool b, h)"
| "alloc (JNum n) h = (Num n, h)"
| "alloc (JStr s) h = (Str s, h)"
| "alloc (JArr xs) h = (case allocItems xs h of (vs, h') \<Rightarrow> (Ref (length h'), h' @ [Array vs]))"
| "alloc (JObj kvs) h =
     (case allocProps kvs h of
        (ps, h') \<Rightarrow> (Ref (length h'), h' @ [Object (foldl (\<lambda>acc kv. setProp acc (fst kv) (snd kv)) [] ps)]))"
| "allocItems [] h = ([], h)"
| "allocItems (x # xs) h =
     (case alloc x h of
        (v, h') \<Rightarrow> (case allocItems xs h' of (vs, h'') \<Rightarrow> (v # vs, h'')))"
| "allocProps [] h = ([], h)"
| "allocProps (kv # kvs) h =
     (case alloc (snd kv) h of
        (v, h') \<Rightarrow> (case allocProps kvs h' of (ps, h'') \<Rightarrow> ((fst kv, v) # ps, h'')))"

fun reify :: "nat \<Rightarrow> heap \<Rightarrow> jsval \<Rightarrow> json option" where
  "reify fuel h Undefined = Some JUndefined"
| "reify fuel h Null = Some JNull"
| "reify fuel h (Bool b) = Some (JBool b)"
| "reify fuel h (Num n) = Some (JNum n)"
| "reify fuel h (Str s) = Some (JStr s)"
| "reify 0 h (Ref a) = None"
| "reify (Suc f) h (Ref a) =
     (case cell h a of
        None \<Rightarrow> None
      | Some (Array es) \<Rightarrow> map_option JArr (those (map (reify f h) es))
      | Some (Object ps) \<Rightarrow>
          map_option JObj
            (those (map (\<lambda>kv. map_option (Pair (fst kv)) (reify f h (snd kv))) ps)))"

text \<open>
  Projection of a document: the source is built in an empty heap and the step is run on
  it; the result is the tree of the value pushed and the tree of the source after the step.
\<close>

definition project :: "nat \<Rightarrow> string list \<Rightarrow> json \<Rightarrow> error + (json option \<times> json option)" where
  "project fuel fieldsToKeep src =
     (case alloc src [] of
        (v, h) \<Rightarrow>
          (case JsonFieldFilter_transform fuel fieldsToKeep None h v of
             Inl e \<Rightarrow> Inl e
           | Inr (out, h') \<Rightarrow> Inr (reify fuel h' out, reify fuel h' v)))"

subsection \<open>JsonParser: the data handler\<close>

text \<open>
  The readable side of a Node Transform in object mode, as far as \<^verbatim>\<open>this.push\<close> reaches it:
  the values accepted so far, whether the end-of-stream marker has been pushed, and the
  error raised, if any. \<^verbatim>\<open>push(null)\<close> is the end-of-stream marker; a value pushed after it
  raises \<^verbatim>\<open>ERR_STREAM_PUSH_AFTER_EOF\<close> and is not accepted; nothing is accepted after an
  error.
\<close>

record readable =
  pushed :: "json list"
  ended :: bool
  errored :: "error option"

definition newReadable :: readable where
  "newReadable = \<lparr>pushed = [], ended = False, errored = None\<rparr>"

definition push :: "json \<Rightarrow> readable \<Rightarrow> readable" where
  "push chunk s =
     (if chunk = JNull then s\<lparr>ended := True\<rparr>
      else if ended s then s\<lparr>errored := Some PushAfterEOF\<rparr>
      else if errored s \<noteq> None then s
      else s\<lparr>pushed := pushed s @ [chunk]\<rparr>)"

text \<open>An item of the pipeline: \<^verbatim>\<open>{ key, value }\<close>.\<close>

record data =
  key :: nat
  "value" :: json

text \<open>\<^verbatim>\<open>this.pipeline.on('data', (data) => { if (data.value !== undefined) this.push(data.value) })\<close>\<close>

definition onData :: "data \<Rightarrow> readable \<Rightarrow> readable" where
  "onData d s = (if value d \<noteq> JUndefined then push (value d) s else s)"

definition onDataAll :: "data list \<Rightarrow> readable \<Rightarrow> readable" where
  "onDataAll ds s = foldl (\<lambda>acc d. onData d acc) s ds"

subsection \<open>The stream-json stages\<close>

text \<open>
  Modelled from the spec: the stages \<^verbatim>\<open>parser\<close>, \<^verbatim>\<open>pick\<close> and \<^verbatim>\<open>streamArray\<close> belong to the
  stream-json package, which is not part of the sources. Following section 4.1, the
  elements of the array at the configured path are delivered one by one in document order,
  each as an item with its position and its value; an absent path delivers nothing; a
  document that is not an array where one is expected is a parse error. \<^verbatim>\<open>pick\<close> selects
  the values whose path, the keys and positions from the root joined by dots, is the
  filter string.
\<close>

definition joinPath :: "string list \<Rightarrow> string" where
  "joinPath stack = concat (case stack of [] \<Rightarrow> [] | x # xs \<Rightarrow> x # map (\<lambda>y. CHR ''.'' # y) xs)"

fun enumerate :: "nat \<Rightarrow> 'a list \<Rightarrow> (nat \<times> 'a) list" where
  "enumerate i [] = []"
| "enumerate i (x # xs) = (i, x) # enumerate (Suc i) xs"

definition streamArray :: "json list \<Rightarrow> data list" where
  "streamArray xs = map (\<lambda>iv. \<lparr>key = fst iv, value = snd iv\<rparr>) (enumerate 0 xs)"

fun subvalues :: "string list \<Rightarrow> json \<Rightarrow> (string \<times> json) list"
  and subvaluesProps :: "string list \<Rightarrow> (string \<times> json) list \<Rightarrow> (string \<times> json) list"
  and subvaluesItems :: "string list \<Rightarrow> nat \<Rightarrow> json list \<Rightarrow> (string \<times> json) list"
where
  "subvalues stack (JObj kvs) = subvaluesProps stack kvs"
| "subvalues stack (JArr xs) = subvaluesItems stack 0 xs"
| "subvalues stack JUndefined = []"
| "subvalues stack JNull = []"
| "subvalues stack (JBool b) = []"
| "subvalues stack (JNum n) = []"
| "subvalues stack (JStr s) = []"
| "subvaluesProps stack [] = []"
| "subvaluesProps stack (kv # kvs) =
     (joinPath (stack @ [fst kv]), snd kv) # subvalues (stack @ [fst kv]) (snd kv)
       @ subvaluesProps stack kvs"
| "subvaluesItems stack i [] = []"
| "subvaluesItems stack i (x # xs) =
     (joinPath (stack @ [showNat i]), x) # subvalues (stack @ [showNat i]) x
       @ subvaluesItems stack (Suc i) xs"

definition pick :: "string \<Rightarrow> json \<Rightarrow> json list" where
  "pick jsonPath doc = map snd (filter (\<lambda>pv. fst pv = jsonPath) (subvalues [] doc))"

datatype pipeline = StreamArray | PickThenStreamArray string

definition pipelineData :: "pipeline \<Rightarrow> json \<Rightarrow> error + data list" where
  "pipelineData pl doc =
     (case (case pl of StreamArray \<Rightarrow> [doc] | PickThenStreamArray jsonPath \<Rightarrow> pick jsonPath doc) of
        [] \<Rightarrow> Inr []
      | [JArr xs] \<Rightarrow> Inr (streamArray xs)
      | _ \<Rightarrow> Inl ParseError)"

subsection \<open>JsonParser: the constructor\<close>

text \<open>
  The regular expression of the constructor is \<^verbatim>\<open>/^(.+)\[\*\]$/\<close>. Without the \<^verbatim>\<open>s\<close> flag
  the dot matches every code unit except a line terminator; without the \<^verbatim>\<open>m\<close> flag the
  anchors are the two ends of the string; \<^verbatim>\<open>.+\<close> needs at least one code unit. The last
  three code units are the marker, so the group is the rest of the string. The result of
  the constructor is the pipeline it builds.
\<close>

definition lineTerminator :: "char \<Rightarrow> bool" where
  "lineTerminator c = (c = CHR 0x0A \<or> c = CHR 0x0D)"

definition pathMatch :: "string \<Rightarrow> string option" where
  "pathMatch extractPath =
     (let n = length extractPath;
          g = take (n - 3) extractPath
      in if 3 < n \<and> drop (n - 3) extractPath = ''[*]'' \<and> \<not> list_ex lineTerminator g
         then Some g else None)"

definition JsonParser_constructor :: "string \<Rightarrow> error + pipeline" where
  "JsonParser_constructor extractPath =
     (case pathMatch extractPath of
        None \<Rightarrow> Inl ConfigurationError
      | Some jsonPath \<Rightarrow>
          if jsonPath = '''' then Inr StreamArray
          else Inr (PickThenStreamArray jsonPath))"

text \<open>
  A run of the parser over a whole document: construction, then the data handler on every
  item the pipeline delivers.
\<close>

definition JsonParser_run :: "string \<Rightarrow> json \<Rightarrow> error + readable" where
  "JsonParser_run extractPath doc =
     (case JsonParser_constructor extractPath of
        Inl e \<Rightarrow> Inl e
      | Inr pl \<Rightarrow>
          (case pipelineData pl doc of
             Inl e \<Rightarrow> Inl e
           | Inr ds \<Rightarrow> Inr (onDataAll ds newReadable)))"

subsection \<open>AxiosResponseStreamFilter: processResponse\<close>

text \<open>
  Each value the parser pushes is written to the field filter, whose result is pushed on
  the filter's own readable side and collected. Every value is processed in a heap of its
  own: the filter keeps no state between values. An error of either stage ends the run;
  how the error reaches the caller is not modelled.
\<close>

definition filterValue :: "nat \<Rightarrow> string list \<Rightarrow> hook option \<Rightarrow> json \<Rightarrow> error + json" where
  "filterValue fuel fieldsToKeep customFilterCase v =
     (case alloc v [] of
        (obj, h) \<Rightarrow>
          (case JsonFieldFilter_transform fuel fieldsToKeep customFilterCase h obj of
             Inl e \<Rightarrow> Inl e
           | Inr (out, h') \<Rightarrow>
               (case reify fuel h' out of None \<Rightarrow> Inl OutOfFuel | Some j \<Rightarrow> Inr j)))"

fun filterAll :: "nat \<Rightarrow> string list \<Rightarrow> hook option \<Rightarrow> json list \<Rightarrow> readable \<Rightarrow> error + readable" where
  "filterAll fuel fieldsToKeep customFilterCase [] s = Inr s"
| "filterAll fuel fieldsToKeep customFilterCase (v # vs) s =
     (case filterValue fuel fieldsToKeep customFilterCase v of
        Inl e \<Rightarrow> Inl e
      | Inr j \<Rightarrow> filterAll fuel fieldsToKeep customFilterCase vs (push j s))"

definition processResponse :: "nat \<Rightarrow> string list \<Rightarrow> hook option \<Rightarrow> json \<Rightarrow> error + json list" where
  "processResponse fuel fieldsToKeep customFilterCase doc =
     (case JsonParser_run ''response[*]'' doc of
        Inl e \<Rightarrow> Inl e
      | Inr rs \<Rightarrow>
          (case errored rs of
             Some e \<Rightarrow> Inl e
           | None \<Rightarrow>
               (case filterAll fuel fieldsToKeep customFilterCase (pushed rs) newReadable of
                  Inl e \<Rightarrow> Inl e
                | Inr fs \<Rightarrow>
                    (case errored fs of
                       Some e \<Rightarrow> Inl e
                     | None \<Rightarrow> Inr (pushed fs)))))"

subsection \<open>Auxiliary notions used in the statements\<close>

text \<open>
  What the transform step makes of a value when no field path is configured: an object or
  array becomes the empty object, any other value is passed on.
\<close>

definition emptied :: "json \<Rightarrow> json" where
  "emptied v = (case v of JArr xs \<Rightarrow> JObj [] | JObj kvs \<Rightarrow> JObj [] | _ \<Rightarrow> v)"






subsection \<open>The projection of a value by tokens, on trees\<close>











section \<open>Properties\<close>

subsection \<open>Evaluation of the data handler\<close>

lemma push_ended_keeps:
  "ended s \<Longrightarrow> pushed (push v s) = pushed s \<and> ended (push v s)"
  by (simp add: push_def)

lemma onData_ended_keeps:
  "ended s \<Longrightarrow> pushed (onData d s) = pushed s \<and> ended (onData d s)"
  by (simp add: onData_def push_ended_keeps)

lemma onDataAll_Cons: "onDataAll (d # ds) s = onDataAll ds (onData d s)"
  by (simp add: onDataAll_def)

lemma onDataAll_ended_keeps:
  "ended s \<Longrightarrow> pushed (onDataAll ds s) = pushed s"
  unfolding onDataAll_def
  by (induction ds arbitrary: s) (simp_all add: onData_ended_keeps)

text \<open>Once the end-of-stream marker is in, nothing more is accepted; before it, every
  element is.\<close>

lemma onDataAll_items:
  "JUndefined \<notin> set xs \<Longrightarrow> \<not> ended s \<Longrightarrow> errored s = None \<Longrightarrow>
   pushed (onDataAll (map (\<lambda>iv. \<lparr>key = fst iv, value = snd iv\<rparr>) (enumerate i xs)) s)
     = pushed s @ takeWhile (\<lambda>v. v \<noteq> JNull) xs"
proof (induction xs arbitrary: s i)
  case Nil
  then show ?case by (simp add: onDataAll_def)
next
  case (Cons x xs)
  show ?case
  proof (cases "x = JNull")
    case True
    then have "ended (onData \<lparr>key = i, value = x\<rparr> s)"
      and "pushed (onData \<lparr>key = i, value = x\<rparr> s) = pushed s"
      by (simp_all add: onData_def push_def)
    then show ?thesis using True
      by (simp add: onDataAll_Cons onDataAll_ended_keeps)
  next
    case False
    with Cons.prems have st: "\<not> ended (onData \<lparr>key = i, value = x\<rparr> s)"
        "errored (onData \<lparr>key = i, value = x\<rparr> s) = None"
        "pushed (onData \<lparr>key = i, value = x\<rparr> s) = pushed s @ [x]"
      by (auto simp: onData_def push_def)
    from Cons.prems have "JUndefined \<notin> set xs" by simp
    from Cons.IH[OF this st(1) st(2)] st(3) False show ?thesis
      by (simp add: onDataAll_Cons)
  qed
qed

lemma onDataAll_streamArray:
  "JUndefined \<notin> set xs \<Longrightarrow>
   pushed (onDataAll (streamArray xs) newReadable) = takeWhile (\<lambda>v. v \<noteq> JNull) xs"
  using onDataAll_items[of xs newReadable 0]
  by (simp add: streamArray_def newReadable_def)

lemma push_no_null: "JNull \<notin> set (pushed s) \<Longrightarrow> JNull \<notin> set (pushed (push v s))"
  by (simp add: push_def)

lemma onDataAll_no_null:
  "JNull \<notin> set (pushed s) \<Longrightarrow> JNull \<notin> set (pushed (onDataAll ds s))"
  unfolding onDataAll_def
  by (induction ds arbitrary: s) (simp_all add: onData_def push_no_null)

subsection \<open>C1: the constructor and the array marker\<close>

text \<open>
  C1 says that the constructor of the parser raises a configuration error exactly when the
  extraction path does not end in the array marker, and that the path \<^verbatim>\<open>[*]\<close>, which is
  the marker alone, is accepted and makes the whole document the target array. The comments
  of \<^verbatim>\<open>JsonParser.ts\<close> say the same and the constructor has a branch for the empty prefix,
  but the regular expression asks for at least one code unit before the marker: on the
  path \<^verbatim>\<open>[*]\<close> the constructor throws.
\<close>

theorem C1_marker_alone_is_rejected:
  "JsonParser_constructor ''[*]'' = Inl ConfigurationError"
  by (simp add: JsonParser_constructor_def pathMatch_def)

subsection \<open>C2: one value for each element of the array\<close>

text \<open>
  C2 says that for a document whose extraction path resolves to an array of \<open>N\<close> elements
  the parser emits \<open>N\<close> values, one for each element. The data handler forwards every
  defined value to \<^verbatim>\<open>this.push\<close>, and \<^verbatim>\<open>push(null)\<close> is the end-of-stream marker of a Node
  stream: in the document \<^verbatim>\<open>{"response":[1,null,2]}\<close> the path \<^verbatim>\<open>response\<close> resolves to an
  array of three elements, one value is emitted, and the third element raises an error.
\<close>

theorem C2_null_element_ends_the_stream:
  "pick ''response'' (JObj [(''response'', JArr [JNum 1, JNull, JNum 2])])
     = [JArr [JNum 1, JNull, JNum 2]]
   \<and> JsonParser_run ''response[*]'' (JObj [(''response'', JArr [JNum 1, JNull, JNum 2])])
     = Inr \<lparr>pushed = [JNum 1], ended = True, errored = Some PushAfterEOF\<rparr>"
  by code_simp

subsection \<open>C3: the source value is left unchanged\<close>

text \<open>
  C3 says that the projector never changes the source value. The last token of a spec
  stores a reference to the source's own sub-object in the target, and
  \<^verbatim>\<open>cleanupEmptyStructures\<close> then prunes inside that object: for the source
  \<^verbatim>\<open>{"a":{"b":{},"c":1}}\<close> and the spec \<^verbatim>\<open>a\<close> the step deletes \<^verbatim>\<open>b\<close> from the source. The
  second component below is the source after the step.
\<close>

theorem C3_cleanup_prunes_the_source:
  "project 3 [''a''] (JObj [(''a'', JObj [(''b'', JObj []), (''c'', JNum 1)])])
     = Inr (Some (JObj [(''a'', JObj [(''c'', JNum 1)])]),
            Some (JObj [(''a'', JObj [(''c'', JNum 1)])]))"
  by code_simp

subsection \<open>C9: a null element ends the emitted sequence\<close>

text \<open>
  C9 says that when the target array contains a JSON null, the emitted sequence stops at
  that element: the values before the first null are emitted, the null is not, and nothing
  after it is. Here \<open>pre\<close> are the elements before the first null and \<open>post\<close> those after
  it.
\<close>

theorem C9_emission_stops_at_first_null:
  assumes "JsonParser_constructor extractPath = Inr pl"
    and "pipelineData pl doc = Inr (streamArray (pre @ JNull # post))"
    and "JNull \<notin> set pre"
    and "JUndefined \<notin> set (pre @ JNull # post)"
  shows "\<exists>rs. JsonParser_run extractPath doc = Inr rs \<and> pushed rs = pre"
proof -
  have "takeWhile (\<lambda>v. v \<noteq> JNull) (pre @ JNull # post) = pre"
    using assms(3) by (induction pre) auto
  with assms show ?thesis
    by (simp add: JsonParser_run_def onDataAll_streamArray del: set_append)
qed

theorem C9_emission_stops_at_first_null_witness:
  "\<exists>rs. JsonParser_run ''response[*]''
            (JObj [(''response'', JArr [JStr ''a'', JNull, JStr ''b''])]) = Inr rs
        \<and> pushed rs = [JStr ''a'']"
proof -
  have 1: "JsonParser_constructor ''response[*]'' = Inr (PickThenStreamArray ''response'')"
    by code_simp
  have 2: "pipelineData (PickThenStreamArray ''response'')
             (JObj [(''response'', JArr [JStr ''a'', JNull, JStr ''b''])])
           = Inr (streamArray ([JStr ''a''] @ JNull # [JStr ''b'']))"
    by code_simp
  have 3: "JNull \<notin> set [JStr ''a'']" by simp
  have 4: "JUndefined \<notin> set ([JStr ''a''] @ JNull # [JStr ''b''])" by simp
  show ?thesis
    using C9_emission_stops_at_first_null[OF 1 2 3 4] by simp
qed

subsection \<open>C8: no field path configured\<close>

lemma cell_append_last: "cell (h @ [x]) (length h) = Some x"
  by (simp add: cell_def)

lemma transform_no_specs:
  "JsonFieldFilter_transform (Suc f) [] None h (Ref a) = Inr (Ref (length h), h @ [Object []])"
  by (simp add: JsonFieldFilter_transform_def Let_def cleanupEmptyStructures.simps
      cell_append_last ownKeys_def List.map_filter_simps)

lemma reify_fresh_object:
  "reify (Suc f) (h @ [Object []]) (Ref (length h)) = Some (JObj [])"
  by (simp add: cell_append_last)

lemma filterValue_no_specs:
  "filterValue (Suc f) [] None v = Inr (emptied v)"
proof -
  obtain obj h where al: "alloc v [] = (obj, h)" by (cases "alloc v []")
  show ?thesis
  proof (cases "\<exists>a. obj = Ref a")
    case True
    then obtain a where a: "obj = Ref a" by blast
    from al a have "emptied v = JObj []"
      by (cases v) (auto simp: emptied_def split: prod.splits)
    with al a show ?thesis
      by (simp add: filterValue_def transform_no_specs reify_fresh_object del: reify.simps)
  next
    case False
    with al have "reify (Suc f) h obj = Some (emptied v)"
      by (cases v) (auto simp: emptied_def split: prod.splits)
    with al False show ?thesis
      by (cases obj) (simp_all add: filterValue_def JsonFieldFilter_transform_def del: reify.simps)
  qed
qed

lemma emptied_not_null: "v \<noteq> JNull \<Longrightarrow> emptied v \<noteq> JNull"
  by (cases v) (simp_all add: emptied_def)

lemma filterAll_no_specs:
  "JNull \<notin> set vs \<Longrightarrow> \<not> ended s \<Longrightarrow> errored s = None \<Longrightarrow>
   \<exists>s'. filterAll (Suc f) [] None vs s = Inr s' \<and> pushed s' = pushed s @ map emptied vs
        \<and> errored s' = None"
proof (induction vs arbitrary: s)
  case Nil
  then show ?case by simp
next
  case (Cons v vs)
  from Cons.prems have "v \<noteq> JNull" by auto
  then have nn: "emptied v \<noteq> JNull" by (rule emptied_not_null)
  with Cons.prems have st: "\<not> ended (push (emptied v) s)" "errored (push (emptied v) s) = None"
    "pushed (push (emptied v) s) = pushed s @ [emptied v]"
    by (simp_all add: push_def)
  from Cons.prems have "JNull \<notin> set vs" by simp
  from Cons.IH[OF this st(1) st(2)] st(3) show ?case
    by (simp add: filterValue_no_specs)
qed

text \<open>
  C8 says that with an empty list of field paths the orchestrator resolves with the raw
  values of the parser, unmodified. \<^verbatim>\<open>processResponse\<close> always pipes the parser into the
  field filter, and the filter replaces every object by a fresh object to which no path
  adds anything (the repository's test of an empty \<^verbatim>\<open>fieldsToKeep\<close> expects \<^verbatim>\<open>{}\<close>): for
  \<^verbatim>\<open>{"response":[{"id":1}]}\<close> the parser emits \<^verbatim>\<open>{"id":1}\<close> and the orchestrator resolves
  with \<^verbatim>\<open>{}\<close>.
\<close>

theorem C8_counterexample:
  "JsonParser_run ''response[*]'' (JObj [(''response'', JArr [JObj [(''id'', JNum 1)]])])
     = Inr \<lparr>pushed = [JObj [(''id'', JNum 1)]], ended = False, errored = None\<rparr>
   \<and> processResponse 1 [] None (JObj [(''response'', JArr [JObj [(''id'', JNum 1)]])])
     = Inr [JObj []]"
  by code_simp

text \<open>
  C8 as amended: with an empty list of field paths and no hook, the orchestrator resolves
  with one value for each value the parser emitted, in the same order: the empty object for
  an object or array, the value itself for a scalar.
\<close>

theorem C8_empty_specs_give_empty_objects:
  assumes "JsonParser_run ''response[*]'' doc = Inr rs" and "errored rs = None"
  shows "processResponse (Suc f) [] None doc = Inr (map emptied (pushed rs))"
proof -
  obtain ds where rs: "rs = onDataAll ds newReadable"
    using assms(1) by (auto simp: JsonParser_run_def split: sum.splits)
  have "JNull \<notin> set (pushed newReadable)" by (simp add: newReadable_def)
  then have "JNull \<notin> set (pushed rs)" unfolding rs by (rule onDataAll_no_null)
  from filterAll_no_specs[OF this, of newReadable f]
  obtain s' where "filterAll (Suc f) [] None (pushed rs) newReadable = Inr s'"
    "pushed s' = map emptied (pushed rs)" "errored s' = None"
    by (auto simp: newReadable_def)
  with assms show ?thesis
    by (simp add: processResponse_def)
qed

theorem C8_empty_specs_give_empty_objects_witness:
  "processResponse (Suc 0) [] None
     (JObj [(''response'', JArr [JObj [(''id'', JNum 1)], JStr ''s'', JArr [JNum 2]])])
   = Inr [JObj [], JStr ''s'', JObj []]"
proof -
  have 1: "JsonParser_run ''response[*]''
             (JObj [(''response'', JArr [JObj [(''id'', JNum 1)], JStr ''s'', JArr [JNum 2]])])
           = Inr \<lparr>pushed = [JObj [(''id'', JNum 1)], JStr ''s'', JArr [JNum 2]],
                   ended = False, errored = None\<rparr>"
    by code_simp
  have 2: "errored \<lparr>pushed = [JObj [(''id'', JNum 1)], JStr ''s'', JArr [JNum 2]],
                     ended = False, errored = None\<rparr> = None"
    by simp
  show ?thesis
    using C8_empty_specs_give_empty_objects[OF 1 2, of 0] by (simp add: emptied_def)
qed

subsection \<open>C10: a numeric segment is an index\<close>

lemma isDigitOf10_iff:
  "isDigitOf 10 c \<longleftrightarrow> 48 \<le> (of_char c :: nat) \<and> (of_char c :: nat) \<le> 57"
  by (auto simp: isDigitOf_def digitValue_def Let_def split: if_splits)

lemma digit_not_ws: "isDigitOf 10 c \<Longrightarrow> \<not> isWhiteSpace c"
  by (auto simp: isDigitOf10_iff isWhiteSpace_def)

lemma digit_not_exp: "isDigitOf 10 c \<Longrightarrow> \<not> isExponentIndicator c"
  by (auto simp: isDigitOf10_iff isExponentIndicator_def)

lemma nondigit: "c \<in> set ''.-+xXoObBI[]*'' \<Longrightarrow> \<not> isDigitOf 10 c"
  by (auto simp: isDigitOf10_iff)

lemma trim_digits:
  assumes "list_all (isDigitOf 10) s"
  shows "trim s = s"
proof (cases s)
  case Nil
  then show ?thesis by (simp add: trim_def)
next
  case (Cons c cs)
  with assms have a: "dropWhile isWhiteSpace s = s"
    by (simp add: digit_not_ws)
  have "rev s \<noteq> []" using Cons by simp
  moreover have "list_all (isDigitOf 10) (rev s)" using assms by (simp add: list_all_iff)
  ultimately have "dropWhile isWhiteSpace (rev s) = rev s"
    by (cases "rev s") (simp_all add: digit_not_ws)
  with a show ?thesis by (simp add: trim_def)
qed

lemma takeWhile_all: "list_all P s \<Longrightarrow> takeWhile P s = s \<and> dropWhile P s = []"
  by (induction s) simp_all

lemma decimalLiteral_digits:
  assumes "s \<noteq> []" "list_all (isDigitOf 10) s"
  shows "decimalLiteral s = Some (digitsValue 10 s, 0)"
proof -
  have 1: "list_all (\<lambda>c. \<not> isExponentIndicator c) s"
    using assms(2) by (simp add: list_all_iff digit_not_exp)
  have 2: "list_all (\<lambda>c. c \<noteq> CHR ''.'') s"
    using assms(2) nondigit[of "CHR ''.''"] by (auto simp add: list_all_iff)
  have 3: "takeWhile (\<lambda>c. \<not> isExponentIndicator c) s = s"
     "dropWhile (\<lambda>c. \<not> isExponentIndicator c) s = []"
    using takeWhile_all[OF 1] by blast+
  have 4: "takeWhile (\<lambda>c. c \<noteq> CHR ''.'') s = s" "dropWhile (\<lambda>c. c \<noteq> CHR ''.'') s = []"
    using takeWhile_all[OF 2] by blast+
  show ?thesis
    unfolding decimalLiteral_def Let_def 3 4
    using assms by simp
qed

lemma startsWith_hd: "startsWith s [c] \<longleftrightarrow> (s \<noteq> [] \<and> hd s = c)"
  by (cases s) (simp_all add: startsWith_def)

lemma startsWith_two: "startsWith s [c, d] \<Longrightarrow> d \<in> set s"
  by (cases s; cases "tl s") (auto simp: startsWith_def)

lemma digits_avoid:
  assumes "list_all (isDigitOf 10) s" "\<not> isDigitOf 10 c"
  shows "c \<notin> set s"
  using assms by (auto simp: list_all_iff)

lemma toNumber_digits:
  assumes "s \<noteq> []" "list_all (isDigitOf 10) s"
  shows "toNumber s = Integer (int (digitsValue 10 s))"
proof -
  have x: "CHR ''x'' \<notin> set s" "CHR ''X'' \<notin> set s" "CHR ''o'' \<notin> set s"
    "CHR ''O'' \<notin> set s" "CHR ''b'' \<notin> set s" "CHR ''B'' \<notin> set s"
    "CHR ''-'' \<notin> set s" "CHR ''+'' \<notin> set s" "CHR ''I'' \<notin> set s"
    by (rule digits_avoid[OF assms(2)], simp add: isDigitOf10_iff)+
  have nopre: "\<not> startsWith s ''0x''" "\<not> startsWith s ''0X''" "\<not> startsWith s ''0o''"
     "\<not> startsWith s ''0O''" "\<not> startsWith s ''0b''" "\<not> startsWith s ''0B''"
    using x startsWith_two by blast+
  have hds: "hd s \<in> set s" using assms(1) by simp
  have nosign: "\<not> startsWith s ''-''" "\<not> startsWith s ''+''"
    using hds x unfolding startsWith_hd by metis+
  have noinf: "s \<noteq> ''Infinity''"
  proof
    assume "s = ''Infinity''"
    then have "CHR ''I'' \<in> set s" by simp
    with x show False by simp
  qed
  show ?thesis
    unfolding toNumber_def Let_def trim_digits[OF assms(2)]
    using assms(1) nopre nosign noinf
    by (simp add: decimalLiteral_digits[OF assms] fromDecimal_def)
qed

lemma includesStr_set: "includesStr s p \<Longrightarrow> set p \<subseteq> set s"
proof (induction s)
  case Nil
  then show ?case by simp
next
  case (Cons c cs)
  show ?case
  proof (cases "startsWith (c # cs) p")
    case True
    then have "p = take (length p) (c # cs)" by (simp add: startsWith_def)
    then have "set p \<subseteq> set (take (length p) (c # cs))" by simp
    then show ?thesis using set_take_subset by fast
  next
    case False
    with Cons show ?thesis by auto
  qed
qed

lemma parseSegment_digits:
  assumes "list_all (isDigitOf 10) s"
  shows "parseSegment s = [s]"
proof -
  have all: "\<And>c. c \<in> set s \<Longrightarrow> isDigitOf 10 c" using assms by (simp add: list_all_iff)
  have nd: "\<And>c. c \<in> set ''.-+xXoObBI[]*'' \<Longrightarrow> c \<notin> set s"
    using all nondigit by blast
  have "\<not> includesStr s ''[*]''"
    using includesStr_set[of s "''[*]''"] nd[of "CHR ''[''"] by auto
  moreover have "\<not> includesStr s ''[''"
    using includesStr_set[of s "''[''"] nd[of "CHR ''[''"] by auto
  ultimately show ?thesis by (simp add: parseSegment_def)
qed

lemma toNumber_star: "toNumber ''*'' = NaN"
  by code_simp

lemma numeric_not_star: "\<not> isNaN (toNumber part) \<Longrightarrow> part \<noteq> ''*''"
proof
  assume a: "\<not> isNaN (toNumber part)" and b: "part = ''*''"
  from b have "toNumber part = NaN" by (simp only: toNumber_star)
  with a show False by (simp add: isNaN_def)
qed

lemma build_numeric_on_object:
  assumes "index < length pathParts" "\<not> isNaN (toNumber (pathParts ! index))"
    "cell h sa = Some (Object ps)"
  shows "buildStructureFromPath h (Ref sa) pathParts index target = Inr h"
  using assms numeric_not_star[OF assms(2)]
  by (subst buildStructureFromPath.simps) (simp add: Let_def)

text \<open>
  C10 says that a dot-separated segment whose text is a decimal number is taken as an
  array index and never as a property name, so that a property of a source object whose
  name is a numeric string is selected by no spec. A segment of decimal digits is one
  token, and \<^verbatim>\<open>Number\<close> of it is not \<^verbatim>\<open>NaN\<close>, so the walk takes the index branch; and
  whenever the token at hand is numeric and the source node is an object (not an array),
  the walk stops there and writes nothing, whatever properties the object has.
\<close>

theorem C10_numeric_segment_is_index:
  "(seg \<noteq> [] \<and> list_all (isDigitOf 10) seg
      \<longrightarrow> parseSegment seg = [seg] \<and> toNumber seg = Integer (int (digitsValue 10 seg))
          \<and> \<not> isNaN (toNumber seg))
   \<and> (index < length pathParts \<and> \<not> isNaN (toNumber (pathParts ! index))
        \<and> cell h sa = Some (Object ps)
      \<longrightarrow> buildStructureFromPath h (Ref sa) pathParts index target = Inr h)"
  using parseSegment_digits[of seg] toNumber_digits[of seg]
    build_numeric_on_object[of index pathParts h sa ps target]
  by (auto simp: isNaN_def)

theorem C10_numeric_segment_is_index_witness:
  "parsePath ''a.0'' = [''a'', ''0''] \<and> toNumber ''0'' = Integer 0
   \<and> buildStructureFromPath [Object [(''a'', Ref 1)], Object [(''0'', Str ''x'')], Object [], Object []]
        (Ref 1) [''a'', ''0''] 1 (Ref 3)
      = Inr [Object [(''a'', Ref 1)], Object [(''0'', Str ''x'')], Object [], Object []]"
proof -
  have 1: "''0'' \<noteq> [] \<and> list_all (isDigitOf 10) ''0''" by code_simp
  have 2: "(1::nat) < length [''a'', ''0'']" by simp
  have 3: "cell [Object [(''a'', Ref 1)], Object [(''0'', Str ''x'')], Object [], Object []] 1
             = Some (Object [(''0'', Str ''x'')])"
    by (simp add: cell_def)
  have 4: "parsePath ''a.0'' = [''a'', ''0'']" by code_simp
  have 5: "digitsValue 10 ''0'' = 0" by code_simp
  note inst = C10_numeric_segment_is_index[of "''0''" 1 "[''a'', ''0'']"
      "[Object [(''a'', Ref 1)], Object [(''0'', Str ''x'')], Object [], Object []]" 1
      "[(''0'', Str ''x'')]" "Ref 3"]
  from inst 1 have 6: "toNumber ''0'' = Integer (int (digitsValue 10 ''0''))"
    and 7: "\<not> isNaN (toNumber ''0'')"
    by blast+
  have 8: "[''a'', ''0''] ! 1 = ''0''" by simp
  from inst 2 3 7 8 have 9:
    "buildStructureFromPath [Object [(''a'', Ref 1)], Object [(''0'', Str ''x'')], Object [], Object []]
        (Ref 1) [''a'', ''0''] 1 (Ref 3)
      = Inr [Object [(''a'', Ref 1)], Object [(''0'', Str ''x'')], Object [], Object []]"
    by metis
  from 4 5 6 9 show ?thesis by simp
qed

subsection \<open>C5: literal specs on a flat object\<close>

text \<open>
  C5 says that for a flat source object and specs made of Literal tokens only, the target
  holds exactly the named top-level keys that exist on the source, each with the source's
  value. The code loses a kept key whose value is falsy (\<^verbatim>\<open>0\<close>, \<^verbatim>\<open>""\<close>, \<^verbatim>\<open>false\<close>, \<^verbatim>\<open>null\<close>)
  when a later spec goes through that key: the walk of \<^verbatim>\<open>a.b\<close> tests \<^verbatim>\<open>!target[part]\<close> to see
  whether the container for \<^verbatim>\<open>a\<close> is absent, finds the value \<^verbatim>\<open>0\<close> that the spec \<^verbatim>\<open>a\<close> has put
  there, replaces it by an empty object, and the pruning removes that object. For the source
  \<^verbatim>\<open>{"a":0}\<close> and the specs \<^verbatim>\<open>a\<close>, \<^verbatim>\<open>a.b\<close> the target is \<^verbatim>\<open>{}\<close>, where the claim gives \<^verbatim>\<open>{"a":0}\<close>;
  for the source \<^verbatim>\<open>{"a":1}\<close> and the same specs the key is kept and the target is \<^verbatim>\<open>{"a":1}\<close>.
\<close>

theorem C5_falsy_value_is_dropped:
  "project 2 [''a'', ''a.b''] (JObj [(''a'', JNum 0)])
     = Inr (Some (JObj []), Some (JObj [(''a'', JNum 0)]))
   \<and> project 2 [''a'', ''a.b''] (JObj [(''a'', JNum 1)])
     = Inr (Some (JObj [(''a'', JNum 1)]), Some (JObj [(''a'', JNum 1)]))"
  by code_simp

subsection \<open>C7: an index that is out of bounds\<close>








lemma cell_take: "cell (take n h) a = Some x \<Longrightarrow> a < n \<and> cell h a = Some x"
  by (auto simp: cell_def split: if_splits)

lemma cell_take_eq:
  "take n h1 = take n h \<Longrightarrow> cell (take n h) a = Some x \<Longrightarrow> cell h1 a = Some x"
  by (metis cell_take)










subsection \<open>C6: a wildcard over an array\<close>



















































end
